theory Spec2Isabelle
  imports Complex_Main
begin

section \<open>Values and host objects\<close>

text \<open>
  Python floats are idealised as real numbers together with the one non-number the
  scripts test for, NaN. A value that may also be Python's \<open>None\<close> is a
  \<open>pyfloat option\<close>.
\<close>

datatype pyfloat = Num real | NaN

fun np_isnan :: "pyfloat \<Rightarrow> bool" where
  "np_isnan NaN = True"
| "np_isnan (Num v) = False"

text \<open>\<open>a < b\<close> on floats: every comparison with NaN is false.\<close>

fun float_lt :: "pyfloat \<Rightarrow> pyfloat \<Rightarrow> bool" where
  "float_lt (Num a) (Num b) = (a < b)"
| "float_lt _ _ = False"

text \<open>\<open>a == b\<close> and \<open>a != b\<close> on floats: NaN is unequal to everything.\<close>

fun float_eq :: "pyfloat \<Rightarrow> pyfloat \<Rightarrow> bool" where
  "float_eq (Num a) (Num b) = (a = b)"
| "float_eq _ _ = False"

definition float_ne :: "pyfloat \<Rightarrow> pyfloat \<Rightarrow> bool" where
  "float_ne a b = (\<not> float_eq a b)"

text \<open>Python's \<open>int(x)\<close> on a float truncates towards zero.\<close>

definition py_int :: "real \<Rightarrow> int" where
  "py_int x = (if 0 \<le> x then \<lfloor>x\<rfloor> else \<lceil>x\<rceil>)"

datatype py_error = ZeroDivisionError | IndexError | TransformError

type_synonym point = "real \<times> real"

record rectangle =
  xMinimum :: real
  xMaximum :: real
  yMinimum :: real
  yMaximum :: real

text \<open>
  A raster layer of the host: its extent, its size in cells and the provider's
  sampling primitive \<open>sample(point, 1)\<close>, which returns a value and a success flag.
  The primitive belongs to the host and is a field of the layer.
\<close>

record raster_layer =
  extent :: rectangle
  width :: int
  height :: int
  sample :: "point \<Rightarrow> pyfloat option \<times> bool"

text \<open>
  A polygon geometry of the host, seen through the two methods the sampler calls:
  \<open>boundingBox()\<close> and \<open>contains(point)\<close>.
\<close>

record geometry =
  boundingBox :: rectangle
  contains :: "point \<Rightarrow> bool"

record sample_result =
  values_of :: "pyfloat list"
  pixel_count :: nat
  coverage_pct :: real

section \<open>Harvest\_Biomass\_Stats.py: the zonal sampler\<close>

text \<open>Lines 212-213: the pixel size from the extent and the size in cells.\<close>

definition pixel_size_x :: "raster_layer \<Rightarrow> real" where
  "pixel_size_x lyr = (xMaximum (extent lyr) - xMinimum (extent lyr)) / real_of_int (width lyr)"

definition pixel_size_y :: "raster_layer \<Rightarrow> real" where
  "pixel_size_y lyr = (yMaximum (extent lyr) - yMinimum (extent lyr)) / real_of_int (height lyr)"

text \<open>Lines 219-222: the clamped index range of the polygon's bounding box.\<close>

definition min_col :: "raster_layer \<Rightarrow> geometry \<Rightarrow> int" where
  "min_col lyr g =
     max 0 (py_int ((xMinimum (boundingBox g) - xMinimum (extent lyr)) / pixel_size_x lyr))"

definition max_col :: "raster_layer \<Rightarrow> geometry \<Rightarrow> int" where
  "max_col lyr g =
     min (width lyr - 1)
         (py_int ((xMaximum (boundingBox g) - xMinimum (extent lyr)) / pixel_size_x lyr))"

definition min_row :: "raster_layer \<Rightarrow> geometry \<Rightarrow> int" where
  "min_row lyr g =
     max 0 (py_int ((yMaximum (extent lyr) - yMaximum (boundingBox g)) / pixel_size_y lyr))"

definition max_row :: "raster_layer \<Rightarrow> geometry \<Rightarrow> int" where
  "max_row lyr g =
     min (height lyr - 1)
         (py_int ((yMaximum (extent lyr) - yMinimum (boundingBox g)) / pixel_size_y lyr))"

text \<open>Lines 233-234: the centre of the cell in row \<open>row\<close> and column \<open>col\<close>.\<close>

definition cell_center :: "raster_layer \<Rightarrow> int \<Rightarrow> int \<Rightarrow> point" where
  "cell_center lyr row col =
     (xMinimum (extent lyr) + (real_of_int col + 0.5) * pixel_size_x lyr,
      yMaximum (extent lyr) - (real_of_int row + 0.5) * pixel_size_y lyr)"

text \<open>
  Lines 230-244: the body of the inner loop. The state is the pair
  \<open>(valid_values, total_pixels)\<close>.
\<close>

definition visit_cell ::
  "raster_layer \<Rightarrow> geometry \<Rightarrow> int \<Rightarrow> pyfloat list \<times> nat \<Rightarrow> int \<Rightarrow> pyfloat list \<times> nat" where
  "visit_cell lyr g row st col =
     (let valid_values = fst st;
          total_pixels = snd st + 1;
          p = cell_center lyr row col
      in if contains g p then
           (case sample lyr p of (val, success) \<Rightarrow>
              (case val of
                 None \<Rightarrow> (valid_values, total_pixels)
               | Some v \<Rightarrow>
                   if success \<and> \<not> np_isnan v then
                     (if float_lt v (Num 65530) then (valid_values @ [v], total_pixels)
                      else (valid_values, total_pixels))
                   else (valid_values, total_pixels)))
         else (valid_values, total_pixels))"

text \<open>Line 229: the loop over the columns of one row; line 228: the loop over rows.\<close>

definition scan_row ::
  "raster_layer \<Rightarrow> geometry \<Rightarrow> pyfloat list \<times> nat \<Rightarrow> int \<Rightarrow> pyfloat list \<times> nat" where
  "scan_row lyr g st row = foldl (visit_cell lyr g row) st [min_col lyr g..max_col lyr g]"

definition scan_cells :: "raster_layer \<Rightarrow> geometry \<Rightarrow> pyfloat list \<times> nat" where
  "scan_cells lyr g = foldl (scan_row lyr g) ([], 0) [min_row lyr g..max_row lyr g]"

text \<open>Line 249.\<close>

definition coverage_of :: "nat \<Rightarrow> nat \<Rightarrow> real" where
  "coverage_of n total_pixels =
     (if total_pixels > 0 then real n / real total_pixels * 100 else 0)"

text \<open>
  Lines 206-255: the body of the \<open>try\<close>. Python raises ZeroDivisionError on a
  division by zero, also between floats: for a layer without columns or rows, and for
  an extent without width or height.
\<close>

definition sampler_body :: "raster_layer \<Rightarrow> geometry \<Rightarrow> py_error + sample_result option" where
  "sampler_body lyr g =
     (if width lyr = 0 \<or> height lyr = 0 then Inl ZeroDivisionError
      else if pixel_size_x lyr = 0 \<or> pixel_size_y lyr = 0 then Inl ZeroDivisionError
      else
        (case scan_cells lyr g of (valid_values, total_pixels) \<Rightarrow>
           if length valid_values = 0 then Inr None
           else Inr (Some \<lparr> values_of = valid_values,
                             pixel_count = length valid_values,
                             coverage_pct = coverage_of (length valid_values) total_pixels \<rparr>)))"

text \<open>What the scripts print.\<close>

datatype message =
    ErrorExtracting py_error
  | WarningNoData int
  | ErrorProcessing int py_error
  | Progress nat nat

text \<open>
  Lines 193-259: the sampler. An exception is caught, reported and turned into
  \<open>None\<close>. The result is paired with what was printed. The third parameter of
  the source, \<open>pixel_area_ha\<close>, is not used by it.
\<close>

definition extract_raster_values_in_polygon ::
  "raster_layer \<Rightarrow> geometry \<Rightarrow> real \<Rightarrow> message list \<times> sample_result option" where
  "extract_raster_values_in_polygon lyr g pixel_area_ha =
     (case sampler_body lyr g of
        Inl e \<Rightarrow> ([ErrorExtracting e], None)
      | Inr r \<Rightarrow> ([], r))"

subsection \<open>The statistics the caller takes from numpy\<close>

text \<open>
  numpy is a library the script calls; its reductions are modelled from their documented
  behaviour. Each returns NaN when the array holds a NaN. The caller applies them to
  non-empty arrays only; on an empty array the model returns NaN.
\<close>

fun num_of :: "pyfloat \<Rightarrow> real" where
  "num_of (Num v) = v"
| "num_of NaN = 0"

definition reduce_with :: "(real list \<Rightarrow> real) \<Rightarrow> pyfloat list \<Rightarrow> pyfloat" where
  "reduce_with f vs =
     (if vs = [] \<or> (\<exists>v \<in> set vs. np_isnan v) then NaN else Num (f (map num_of vs)))"

definition mean_of :: "real list \<Rightarrow> real" where
  "mean_of xs = sum_list xs / real (length xs)"

definition np_mean :: "pyfloat list \<Rightarrow> pyfloat" where
  "np_mean = reduce_with mean_of"

definition np_sum :: "pyfloat list \<Rightarrow> pyfloat" where
  "np_sum vs = (if \<exists>v \<in> set vs. np_isnan v then NaN else Num (sum_list (map num_of vs)))"

definition np_std :: "pyfloat list \<Rightarrow> pyfloat" where
  "np_std = reduce_with (\<lambda>xs. sqrt (mean_of (map (\<lambda>x. (x - mean_of xs)\<^sup>2) xs)))"

definition np_min :: "pyfloat list \<Rightarrow> pyfloat" where
  "np_min = reduce_with (\<lambda>xs. case xs of [] \<Rightarrow> 0 | x # ys \<Rightarrow> fold min ys x)"

definition np_max :: "pyfloat list \<Rightarrow> pyfloat" where
  "np_max = reduce_with (\<lambda>xs. case xs of [] \<Rightarrow> 0 | x # ys \<Rightarrow> fold max ys x)"

text \<open>\<open>np.percentile\<close> with its default method, linear interpolation.\<close>

definition percentile_of :: "real \<Rightarrow> real list \<Rightarrow> real" where
  "percentile_of q xs =
     (let s = sort xs;
          h = q / 100 * real (length xs - 1);
          lo = nat \<lfloor>h\<rfloor>;
          hi = min (lo + 1) (length xs - 1)
      in s ! lo + (h - real lo) * (s ! hi - s ! lo))"

definition np_percentile :: "pyfloat list \<Rightarrow> real \<Rightarrow> pyfloat" where
  "np_percentile vs q = reduce_with (percentile_of q) vs"

definition np_median :: "pyfloat list \<Rightarrow> pyfloat" where
  "np_median vs = np_percentile vs 50"

definition float_times :: "pyfloat \<Rightarrow> real \<Rightarrow> pyfloat" where
  "float_times a b = (case a of NaN \<Rightarrow> NaN | Num v \<Rightarrow> Num (v * b))"

subsection \<open>The caller: one row per harvest patch\<close>

record feature =
  fid :: int
  id_attribute :: "int option"
  fgeometry :: geometry

record stat_row =
  patch_id :: "int option"
  feature_id :: int
  mean_biomass :: pyfloat
  median_biomass :: pyfloat
  std_biomass :: pyfloat
  min_biomass :: pyfloat
  max_biomass :: pyfloat
  p25_biomass :: pyfloat
  p75_biomass :: pyfloat
  p95_biomass :: pyfloat
  total_biomass :: pyfloat
  row_pixel_count :: nat
  effective_area_ha :: real
  data_coverage_pct :: real
  uncertainty :: "(pyfloat option \<times> pyfloat option) option"

text \<open>
  Lines 109-111: the geometry of the feature, moved into the raster's reference frame
  when the frames differ. The transform is the host's and may raise.
\<close>

definition feature_geometry ::
  "(geometry \<Rightarrow> py_error + geometry) option \<Rightarrow> feature \<Rightarrow> py_error + geometry" where
  "feature_geometry transform f =
     (case transform of None \<Rightarrow> Inr (fgeometry f) | Some t \<Rightarrow> t (fgeometry f))"

text \<open>Lines 148-158: the two uncertainty columns, present when there is a third layer.\<close>

definition uncertainty_columns ::
  "raster_layer option \<Rightarrow> geometry \<Rightarrow> real
     \<Rightarrow> message list \<times> (pyfloat option \<times> pyfloat option) option" where
  "uncertainty_columns stdev_layer geom pixel_area_ha =
     (case stdev_layer of
        None \<Rightarrow> ([], None)
      | Some sl \<Rightarrow>
          (case extract_raster_values_in_polygon sl geom pixel_area_ha of (out, stats) \<Rightarrow>
             (case stats of
                None \<Rightarrow> (out, Some (None, None))
              | Some u \<Rightarrow>
                  if pixel_count u > 0
                  then (out, Some (Some (np_mean (values_of u)), Some (np_max (values_of u))))
                  else (out, Some (None, None)))))"

text \<open>
  Lines 107-164: the body of the loop over the features. It returns what was printed and
  the row appended to \<open>results\<close>, if any.
\<close>

definition process_feature ::
  "(geometry \<Rightarrow> py_error + geometry) option \<Rightarrow> raster_layer \<Rightarrow> raster_layer option \<Rightarrow> real
     \<Rightarrow> feature \<Rightarrow> message list \<times> stat_row option" where
  "process_feature transform biomass_layer stdev_layer pixel_area_ha f =
     (case feature_geometry transform f of
        Inl e \<Rightarrow> ([ErrorProcessing (fid f) e], None)
      | Inr geom \<Rightarrow>
          (case extract_raster_values_in_polygon biomass_layer geom pixel_area_ha of
             (out, biomass_stats) \<Rightarrow>
               (case biomass_stats of
                  None \<Rightarrow> (out @ [WarningNoData (fid f)], None)
                | Some st \<Rightarrow>
                    if pixel_count st = 0 then (out @ [WarningNoData (fid f)], None)
                    else
                      (let vs = values_of st;
                           stats_result =
                             \<lparr> patch_id = id_attribute f,
                               feature_id = fid f,
                               mean_biomass = np_mean vs,
                               median_biomass = np_median vs,
                               std_biomass = np_std vs,
                               min_biomass = np_min vs,
                               max_biomass = np_max vs,
                               p25_biomass = np_percentile vs 25,
                               p75_biomass = np_percentile vs 75,
                               p95_biomass = np_percentile vs 95,
                               total_biomass = float_times (np_sum vs) pixel_area_ha,
                               row_pixel_count = length vs,
                               effective_area_ha = real (length vs) * pixel_area_ha,
                               data_coverage_pct = coverage_pct st,
                               uncertainty = None \<rparr>
                       in case uncertainty_columns stdev_layer geom pixel_area_ha of
                            (out2, u) \<Rightarrow>
                              (out @ out2, Some (stats_result \<lparr> uncertainty := u \<rparr>))))))"

text \<open>
  Lines 103-164: the loop. The state is what was printed so far and \<open>results\<close>;
  \<open>i\<close> is the index \<open>enumerate\<close> gives and \<open>n\<close> the feature count.
\<close>

fun process_patches ::
  "(geometry \<Rightarrow> py_error + geometry) option \<Rightarrow> raster_layer \<Rightarrow> raster_layer option \<Rightarrow> real
     \<Rightarrow> nat \<Rightarrow> nat \<Rightarrow> feature list \<Rightarrow> message list \<times> stat_row list
     \<Rightarrow> message list \<times> stat_row list" where
  "process_patches transform bl sl pa n i [] st = st"
| "process_patches transform bl sl pa n i (f # fs) st =
     (let out0 = fst st @ (if i mod 50 = 0 then [Progress (i + 1) n] else [])
      in case process_feature transform bl sl pa f of
           (out, None) \<Rightarrow> process_patches transform bl sl pa n (i + 1) fs (out0 @ out, snd st)
         | (out, Some row) \<Rightarrow>
             process_patches transform bl sl pa n (i + 1) fs (out0 @ out, snd st @ [row]))"

subsection \<open>The example scenario\<close>

text \<open>
  A grid with origin \<open>(0, 100)\<close>, cells of 10 by 10, 10 columns and 10 rows. Every
  cell holds 5, except cell \<open>(0, 0)\<close>, the top left one, which holds 65535. The
  polygon is the bounding box of the grid; the cell centres are in its interior.
\<close>

definition example_grid :: raster_layer where
  "example_grid =
     \<lparr> extent = \<lparr> xMinimum = 0, xMaximum = 100, yMinimum = 0, yMaximum = 100 \<rparr>,
       width = 10, height = 10,
       sample = (\<lambda>(x, y). (if x < 10 \<and> 90 < y then Some (Num 65535) else Some (Num 5), True)) \<rparr>"

definition example_polygon :: geometry where
  "example_polygon =
     \<lparr> boundingBox = \<lparr> xMinimum = 0, xMaximum = 100, yMinimum = 0, yMaximum = 100 \<rparr>,
       contains = (\<lambda>(x, y). 0 < x \<and> x < 100 \<and> 0 < y \<and> y < 100) \<rparr>"

text \<open>A polygon to the right of the grid, and a grid that holds 65535 everywhere.\<close>

definition outside_polygon :: geometry where
  "outside_polygon =
     \<lparr> boundingBox = \<lparr> xMinimum = 200, xMaximum = 300, yMinimum = 0, yMaximum = 100 \<rparr>,
       contains = (\<lambda>(x, y). 200 < x \<and> x < 300 \<and> 0 < y \<and> y < 100) \<rparr>"

definition nodata_grid :: raster_layer where
  "nodata_grid = example_grid \<lparr> sample := (\<lambda>p. (Some (Num 65535), True)) \<rparr>"

definition example_feature :: feature where
  "example_feature = \<lparr> fid = 7, id_attribute = None, fgeometry = outside_polygon \<rparr>"

text \<open>The bounding box of a geometry encloses every point the geometry contains.\<close>

definition bbox_encloses :: "geometry \<Rightarrow> bool" where
  "bbox_encloses g =
     (\<forall>x y. contains g (x, y) \<longrightarrow>
        xMinimum (boundingBox g) \<le> x \<and> x \<le> xMaximum (boundingBox g) \<and>
        yMinimum (boundingBox g) \<le> y \<and> y \<le> yMaximum (boundingBox g))"

section \<open>calculate\_shape\_metrics.py\<close>

text \<open>
  Python's \<open>round(x, ndigits)\<close>: to the nearest multiple of \<open>10^-ndigits\<close>, a tie
  going to the even neighbour.
\<close>

definition round_half_even :: "real \<Rightarrow> int" where
  "round_half_even x =
     (let f = \<lfloor>x\<rfloor>; d = x - real_of_int f
      in if d < 1 / 2 then f else if 1 / 2 < d then f + 1 else if even f then f else f + 1)"

definition py_round :: "real \<Rightarrow> nat \<Rightarrow> real" where
  "py_round x ndigits = real_of_int (round_half_even (x * 10 ^ ndigits)) / 10 ^ ndigits"

text \<open>\<open>math.atan2(y, x)\<close>, with values in \<open>(-\<pi>, \<pi>]\<close>, and \<open>math.degrees\<close>.\<close>

definition math_atan2 :: "real \<Rightarrow> real \<Rightarrow> real" where
  "math_atan2 y x =
     (if 0 < x then arctan (y / x)
      else if x < 0 \<and> 0 \<le> y then arctan (y / x) + pi
      else if x < 0 then arctan (y / x) - pi
      else if 0 < y then pi / 2
      else if y < 0 then - (pi / 2)
      else 0)"

definition math_degrees :: "real \<Rightarrow> real" where
  "math_degrees r = r * (180 / pi)"

datatype geometry_type = PointGeometry | LineGeometry | PolygonGeometry | UnknownGeometry | NullGeometry

text \<open>
  The geometry that \<open>orientedMinimumBoundingBox()[0]\<close> gives, seen through
  \<open>type()\<close> and \<open>vertices()\<close>.
\<close>

record box_geometry =
  box_type :: geometry_type
  box_vertices :: "point list"

text \<open>
  A geometry of the host as the shape metrics see it: \<open>type()\<close>, \<open>area()\<close>,
  \<open>length()\<close>, \<open>boundingBox()\<close> and \<open>orientedMinimumBoundingBox()\<close>, a call that
  may raise and whose first component may be \<open>None\<close>.
\<close>

record shape_geometry =
  gtype :: geometry_type
  area :: real
  perimeter :: real
  bounds :: rectangle
  orientedMinimumBoundingBox :: "py_error + box_geometry option"

datatype shape_message =
    ErrorMetrics int py_error
  | ErrorElongation py_error

text \<open>Lines 167-171 and 197-200: the edges between consecutive vertices.\<close>

definition edges :: "point list \<Rightarrow> (real \<times> real) list" where
  "edges vertices =
     map (\<lambda>(a, b). (fst b - fst a, snd b - snd a)) (zip vertices (tl vertices))"

definition edge_length :: "real \<times> real \<Rightarrow> real" where
  "edge_length e = sqrt (fst e * fst e + snd e * snd e)"

text \<open>
  Lines 194-204: the loop that keeps the angle of the first edge of greatest length. The
  state is the pair \<open>(max_length, orientation_angle)\<close>.
\<close>

definition longer_edge :: "real \<times> real \<Rightarrow> real \<times> real \<Rightarrow> real \<times> real" where
  "longer_edge st e =
     (if edge_length e > fst st
      then (edge_length e, math_degrees (math_atan2 (snd e) (fst e)))
      else st)"

text \<open>Lines 157-210, once the box is known to be a polygon.\<close>

definition elongation_of_vertices :: "point list \<Rightarrow> real \<times> real" where
  "elongation_of_vertices vertices =
     (if length vertices < 4 then (1, 0)
      else
        (let side_lengths = map edge_length (edges vertices)
         in if length side_lengths < 2 then (1, 0)
            else
              (let unique_lengths = sort (remdups (map (\<lambda>l. py_round l 2) side_lengths))
               in if length unique_lengths < 2 then (1, 0)
                  else
                    (let minor_axis = unique_lengths ! 0;
                         major_axis = unique_lengths ! 1;
                         elongation_ratio =
                           (if minor_axis > 0 then major_axis / minor_axis else 1);
                         orientation_angle = snd (foldl longer_edge (0, 0) (edges vertices))
                     in (elongation_ratio,
                         if orientation_angle < 0 then orientation_angle + 180
                         else orientation_angle)))))"

text \<open>Lines 140-214. The result is paired with what was printed.\<close>

definition calculate_elongation_and_orientation ::
  "shape_geometry \<Rightarrow> shape_message list \<times> (real \<times> real)" where
  "calculate_elongation_and_orientation geom =
     (case orientedMinimumBoundingBox geom of
        Inl e \<Rightarrow> ([ErrorElongation e], (1, 0))
      | Inr None \<Rightarrow> ([], (1, 0))
      | Inr (Some bbox_geom) \<Rightarrow>
          if box_type bbox_geom \<noteq> PolygonGeometry then ([], (1, 0))
          else ([], elongation_of_vertices (box_vertices bbox_geom)))"

text \<open>
  Lines 108-112. Python raises ZeroDivisionError when \<open>math.log(area_m2)\<close> is zero.
\<close>

definition fractal_dimension_index :: "real \<Rightarrow> real \<Rightarrow> py_error + real" where
  "fractal_dimension_index area_m2 perimeter_m =
     (if area_m2 > 0 \<and> perimeter_m > 0 then
        (if ln area_m2 = 0 then Inl ZeroDivisionError
         else Inr (2 * ln (perimeter_m / 4) / ln area_m2))
      else Inr 0)"

record metrics_row =
  m_feature_id :: int
  m_area_ha :: real
  m_perimeter_m :: real
  m_length_m :: real
  m_width_m :: real
  m_equivalent_diameter_m :: real
  m_shape_index :: real
  m_perimeter_area_ratio :: real
  m_compactness_index :: real
  m_fractal_dimension_index :: real
  m_elongation_ratio :: real
  m_orientation_degrees :: real
  m_edge_density :: real

text \<open>
  Lines 79-138. Past the guard of line 88 the area is at least 1000, so the square
  roots and the divisions by the area are defined; the division by the squared perimeter
  raises when the perimeter is zero.
\<close>

definition calculate_feature_metrics ::
  "int \<Rightarrow> shape_geometry \<Rightarrow> shape_message list \<times> metrics_row option" where
  "calculate_feature_metrics feat_id geom =
     (let area_m2 = area geom;
          area_ha = area_m2 / 10000;
          perimeter_m = perimeter geom
      in if area_ha < 0.1 then ([], None)
         else
           (let bbox = bounds geom;
                bw = xMaximum bbox - xMinimum bbox;
                bh = yMaximum bbox - yMinimum bbox;
                length_m = max bw bh;
                width_m = min bw bh;
                equivalent_diameter_m = 2 * sqrt (area_m2 / pi);
                shape_index = perimeter_m / (2 * sqrt (pi * area_m2));
                perimeter_area_ratio = perimeter_m / area_m2
            in if perimeter_m\<^sup>2 = 0 then ([ErrorMetrics feat_id ZeroDivisionError], None)
               else
                 (let compactness_index = (4 * pi * area_m2) / perimeter_m\<^sup>2
                  in case fractal_dimension_index area_m2 perimeter_m of
                       Inl e \<Rightarrow> ([ErrorMetrics feat_id e], None)
                     | Inr fdi \<Rightarrow>
                         (case calculate_elongation_and_orientation geom of
                            (out, (elongation_ratio, orientation_degrees)) \<Rightarrow>
                              (let edge_density = perimeter_m / area_m2
                               in (out,
                                   Some \<lparr> m_feature_id = feat_id,
                                          m_area_ha = py_round area_ha 4,
                                          m_perimeter_m = py_round perimeter_m 2,
                                          m_length_m = py_round length_m 2,
                                          m_width_m = py_round width_m 2,
                                          m_equivalent_diameter_m = py_round equivalent_diameter_m 2,
                                          m_shape_index = py_round shape_index 4,
                                          m_perimeter_area_ratio = py_round perimeter_area_ratio 6,
                                          m_compactness_index = py_round compactness_index 4,
                                          m_fractal_dimension_index = py_round fdi 4,
                                          m_elongation_ratio = py_round elongation_ratio 4,
                                          m_orientation_degrees = py_round orientation_degrees 2,
                                          m_edge_density = py_round edge_density 6 \<rparr>))))))"

text \<open>
  Lines 53-67: the loop that writes one CSV row per feature. A feature without a
  geometry, or whose geometry is not a polygon, is passed over.
\<close>

record shape_feature =
  sfid :: int
  sgeometry :: "shape_geometry option"

fun write_metrics ::
  "shape_feature list \<Rightarrow> shape_message list \<times> metrics_row list
     \<Rightarrow> shape_message list \<times> metrics_row list" where
  "write_metrics [] st = st"
| "write_metrics (f # fs) st =
     (case sgeometry f of
        None \<Rightarrow> write_metrics fs st
      | Some geom \<Rightarrow>
          if gtype geom \<noteq> PolygonGeometry then write_metrics fs st
          else
            (case calculate_feature_metrics (sfid f) geom of
               (out, None) \<Rightarrow> write_metrics fs (fst st @ out, snd st)
             | (out, Some metrics) \<Rightarrow> write_metrics fs (fst st @ out, snd st @ [metrics])))"

section \<open>harvest\_prob\_extract.py\<close>

text \<open>
  A raster layer as this script uses it: besides the sampling primitive, the provider's
  declared no-data value \<open>sourceNoDataValue(1)\<close> and the values of
  \<open>block(1, extent, width, height)\<close>, reshaped to \<open>height\<close> rows of
  \<open>width\<close> columns. The layers hold 32-bit floats, as the script reads them.
\<close>

record data_layer = raster_layer +
  sourceNoDataValue :: pyfloat
  block :: "int \<Rightarrow> int \<Rightarrow> pyfloat"

datatype csv_row = Header | Data real real pyfloat pyfloat

datatype extract_message = LayerNotFound string | LayersNotFound

text \<open>
  A run ends with an uncaught exception, or stops with a message because a layer is
  missing, or writes its rows.
\<close>

datatype outcome = Raised py_error | Aborted "extract_message list" | Exported "csv_row list"

text \<open>Lines 59-60 and 158-159: \<open>extent.width() / width\<close>, \<open>extent.height() / height\<close>.\<close>

definition cell_size_x :: "data_layer \<Rightarrow> real" where
  "cell_size_x lyr = (xMaximum (extent lyr) - xMinimum (extent lyr)) / real_of_int (width lyr)"

definition cell_size_y :: "data_layer \<Rightarrow> real" where
  "cell_size_y lyr = (yMaximum (extent lyr) - yMinimum (extent lyr)) / real_of_int (height lyr)"

text \<open>Lines 75-76 and 169-170: the world coordinates of a cell of the harvest layer.\<close>

definition world_xy :: "data_layer \<Rightarrow> int \<Rightarrow> int \<Rightarrow> point" where
  "world_xy harvest_layer row col =
     (xMinimum (extent harvest_layer) + (real_of_int col + 0.5) * cell_size_x harvest_layer,
      yMaximum (extent harvest_layer) - (real_of_int row + 0.5) * cell_size_y harvest_layer)"

text \<open>Lines 74-91: the body of the inner loop of the per-pixel path.\<close>

definition sample_pixel ::
  "data_layer \<Rightarrow> data_layer \<Rightarrow> data_layer \<Rightarrow> int \<Rightarrow> csv_row list \<Rightarrow> int \<Rightarrow> csv_row list" where
  "sample_pixel agb_layer harvest_layer harvest_prob_layer row csv_data col =
     (let p = world_xy harvest_layer row col;
          harvest_value = fst (sample harvest_layer p)
      in if (case harvest_value of None \<Rightarrow> False | Some h \<Rightarrow> float_eq h (Num 1)) then
           (let agb_value = fst (sample agb_layer p);
                harvest_prob_value = fst (sample harvest_prob_layer p)
            in case agb_value of
                 None \<Rightarrow> csv_data
               | Some a \<Rightarrow>
                   (case harvest_prob_value of
                      None \<Rightarrow> csv_data
                    | Some q \<Rightarrow>
                        if float_ne a (sourceNoDataValue agb_layer) \<and>
                           float_ne q (sourceNoDataValue harvest_prob_layer)
                        then csv_data @ [Data (fst p) (snd p) a q]
                        else csv_data))
         else csv_data)"

text \<open>
  Lines 7-105: the per-pixel path. The three arguments are what the search of the
  project by layer name found.
\<close>

definition extract_raster_values_to_csv ::
  "data_layer option \<Rightarrow> data_layer option \<Rightarrow> data_layer option \<Rightarrow> outcome" where
  "extract_raster_values_to_csv agb harvest harvest_prob =
     (case agb of
        None \<Rightarrow> Aborted [LayerNotFound ''AGB_Masked'']
      | Some agb_layer \<Rightarrow>
          (case harvest of
             None \<Rightarrow> Aborted [LayerNotFound ''Harvest_10m'']
           | Some harvest_layer \<Rightarrow>
               (case harvest_prob of
                  None \<Rightarrow> Aborted [LayerNotFound ''harvest_prob_10m'']
                | Some harvest_prob_layer \<Rightarrow>
                    if width harvest_layer = 0 \<or> height harvest_layer = 0
                    then Raised ZeroDivisionError
                    else Exported
                      (foldl (\<lambda>csv_data row.
                                foldl (sample_pixel agb_layer harvest_layer harvest_prob_layer row)
                                  csv_data [0..width harvest_layer - 1])
                         [Header] [0..height harvest_layer - 1]))))"

text \<open>
  Line 162: \<open>np.where\<close> on the mask \<open>harvest_np == 1\<close> gives the indices of the
  cells that hold 1, row by row.
\<close>

definition np_where_harvest :: "data_layer \<Rightarrow> (int \<times> int) list" where
  "np_where_harvest harvest_layer =
     filter (\<lambda>(row, col). float_eq (block harvest_layer row col) (Num 1))
       (List.product [0..height harvest_layer - 1] [0..width harvest_layer - 1])"

text \<open>
  Lines 172-173: an index into the array of another layer raises IndexError when that
  array is smaller. The indices are never negative.
\<close>

definition array_at :: "data_layer \<Rightarrow> int \<Rightarrow> int \<Rightarrow> py_error + pyfloat" where
  "array_at lyr row col =
     (if row < height lyr \<and> col < width lyr then Inr (block lyr row col) else Inl IndexError)"

text \<open>Lines 167-177: the loop over the masked cells.\<close>

fun masked_rows ::
  "data_layer \<Rightarrow> data_layer \<Rightarrow> data_layer \<Rightarrow> (int \<times> int) list \<Rightarrow> csv_row list
     \<Rightarrow> py_error + csv_row list" where
  "masked_rows agb_layer harvest_layer harvest_prob_layer [] csv_data = Inr csv_data"
| "masked_rows agb_layer harvest_layer harvest_prob_layer ((row, col) # rest) csv_data =
     (let p = world_xy harvest_layer row col
      in case array_at agb_layer row col of
           Inl e \<Rightarrow> Inl e
         | Inr agb_val \<Rightarrow>
             (case array_at harvest_prob_layer row col of
                Inl e \<Rightarrow> Inl e
              | Inr harvest_prob_val \<Rightarrow>
                  if \<not> (np_isnan agb_val \<or> np_isnan harvest_prob_val)
                  then masked_rows agb_layer harvest_layer harvest_prob_layer rest
                         (csv_data @ [Data (fst p) (snd p) agb_val harvest_prob_val])
                  else masked_rows agb_layer harvest_layer harvest_prob_layer rest csv_data))"

text \<open>
  Lines 108-190: the bulk-array path. Without numpy it runs the per-pixel path.
\<close>

definition extract_raster_values_to_csv_numpy ::
  "bool \<Rightarrow> data_layer option \<Rightarrow> data_layer option \<Rightarrow> data_layer option \<Rightarrow> outcome" where
  "extract_raster_values_to_csv_numpy numpy_available agb harvest harvest_prob =
     (if \<not> numpy_available then extract_raster_values_to_csv agb harvest harvest_prob
      else
        (case (agb, harvest, harvest_prob) of
           (Some agb_layer, Some harvest_layer, Some harvest_prob_layer) \<Rightarrow>
             if width harvest_layer = 0 \<or> height harvest_layer = 0
             then Raised ZeroDivisionError
             else
               (case masked_rows agb_layer harvest_layer harvest_prob_layer
                       (np_where_harvest harvest_layer) [Header] of
                  Inl e \<Rightarrow> Raised e
                | Inr csv_data \<Rightarrow> Exported csv_data)
         | _ \<Rightarrow> Aborted [LayersNotFound]))"

subsection \<open>Three layers of one cell\<close>

text \<open>
  Three layers on the same grid of one cell, 10 by 10. What a layer samples at a point
  is what its block holds. The harvest layer holds 1, the probability layer 0.5, and the
  biomass layer is masked there: it holds NaN, its declared no-data value.
\<close>

definition one_cell :: "pyfloat \<Rightarrow> pyfloat \<Rightarrow> data_layer" where
  "one_cell v nodata =
     \<lparr> extent = \<lparr> xMinimum = 0, xMaximum = 10, yMinimum = 0, yMaximum = 10 \<rparr>,
       width = 1, height = 1,
       sample = (\<lambda>p. (Some v, True)),
       sourceNoDataValue = nodata,
       block = (\<lambda>row col. v) \<rparr>"

definition harvest_cell :: data_layer where
  "harvest_cell = one_cell (Num 1) (Num 255)"

definition agb_cell :: data_layer where
  "agb_cell = one_cell NaN NaN"

definition prob_cell :: data_layer where
  "prob_cell = one_cell (Num 0.5) (Num (- 1))"

subsection \<open>Four fields\<close>

text \<open>
  A field of 400 by 100 whose oriented box starts at its upper right corner, so that its
  first and longest edge points west; a degenerate box with two distinct corners, standing
  upright; a square of 100 by 100; and a plot of 900 square metres.
\<close>

definition box_of :: "point list \<Rightarrow> py_error + box_geometry option" where
  "box_of vs = Inr (Some \<lparr> box_type = PolygonGeometry, box_vertices = vs \<rparr>)"



definition square_field :: shape_geometry where
  "square_field =
     \<lparr> gtype = PolygonGeometry, area = 10000, perimeter = 400,
       bounds = \<lparr> xMinimum = 0, xMaximum = 100, yMinimum = 0, yMaximum = 100 \<rparr>,
       orientedMinimumBoundingBox = box_of [(0, 0), (100, 0), (100, 100), (0, 100), (0, 0)] \<rparr>"

definition small_field :: shape_geometry where
  "small_field = square_field \<lparr> area := 900, perimeter := 120 \<rparr>"

section \<open>Properties of the zonal sampler\<close>

subsection \<open>The two loops\<close>

text \<open>
  Each visit of a cell counts it and appends at most one value; so the result of the two
  loops is the concatenation of what the single cells give, and the count is the number
  of cells of the index range.
\<close>

lemma visit_cell_snd: "snd (visit_cell lyr g row st col) = snd st + 1"
  by (simp add: visit_cell_def Let_def split: prod.splits option.splits)

lemma visit_cell_fst:
  "fst (visit_cell lyr g row st col) = fst st @ fst (visit_cell lyr g row ([], 0) col)"
  by (simp add: visit_cell_def Let_def split: prod.splits option.splits)

lemma scan_row_snd_aux:
  "snd (foldl (visit_cell lyr g row) st cs) = snd st + length cs"
  by (induction cs arbitrary: st) (simp_all add: visit_cell_snd)

lemma scan_row_fst_aux:
  "fst (foldl (visit_cell lyr g row) st cs) =
     fst st @ concat (map (\<lambda>c. fst (visit_cell lyr g row ([], 0) c)) cs)"
proof (induction cs arbitrary: st)
  case Nil
  show ?case by simp
next
  case (Cons c cs)
  show ?case
    by (simp add: Cons.IH [of "visit_cell lyr g row st c"] visit_cell_fst [of lyr g row st c])
qed

lemma scan_row_snd:
  "snd (scan_row lyr g st row) = snd st + nat (max_col lyr g - min_col lyr g + 1)"
  by (simp add: scan_row_def scan_row_snd_aux)

lemma scan_row_fst:
  "fst (scan_row lyr g st row) = fst st @ fst (scan_row lyr g ([], 0) row)"
  by (simp add: scan_row_def scan_row_fst_aux [of lyr g row st]
        scan_row_fst_aux [of lyr g row "([], 0)"])

lemma scan_rows_snd_aux:
  "snd (foldl (scan_row lyr g) st rs) =
     snd st + length rs * nat (max_col lyr g - min_col lyr g + 1)"
  by (induction rs arbitrary: st) (simp_all add: scan_row_snd)

lemma scan_rows_fst_aux:
  "fst (foldl (scan_row lyr g) st rs) =
     fst st @ concat (map (\<lambda>r. fst (scan_row lyr g ([], 0) r)) rs)"
proof (induction rs arbitrary: st)
  case Nil
  show ?case by simp
next
  case (Cons r rs)
  show ?case
    by (simp add: Cons.IH [of "scan_row lyr g st r"] scan_row_fst [of lyr g st r])
qed

lemma scan_cells_total:
  "snd (scan_cells lyr g) =
     nat (max_row lyr g - min_row lyr g + 1) * nat (max_col lyr g - min_col lyr g + 1)"
  by (simp add: scan_cells_def scan_rows_snd_aux)

lemma scan_cells_values:
  "fst (scan_cells lyr g) =
     concat (map (\<lambda>r. concat (map (\<lambda>c. fst (visit_cell lyr g r ([], 0) c))
                                      [min_col lyr g..max_col lyr g]))
                 [min_row lyr g..max_row lyr g])"
  by (simp add: scan_cells_def scan_rows_fst_aux [of lyr g "([], 0)"] scan_row_def
        scan_row_fst_aux [of lyr g _ "([], 0)"])

lemma visit_cell_valid:
  "x \<in> set (fst (visit_cell lyr g row ([], 0) col)) \<Longrightarrow> \<exists>v. x = Num v \<and> v < 65530"
  by (cases "snd (sample lyr (cell_center lyr row col))"; cases x)
     (auto simp add: visit_cell_def Let_def split: prod.splits option.splits if_splits)

lemma visit_cell_bound:
  "length (fst st) \<le> snd st \<Longrightarrow>
   length (fst (visit_cell lyr g row st col)) \<le> snd (visit_cell lyr g row st col)"
  by (simp add: visit_cell_def Let_def split: prod.splits option.splits)

lemma visit_cells_bound:
  "length (fst st) \<le> snd st \<Longrightarrow>
   length (fst (foldl (visit_cell lyr g row) st cs)) \<le> snd (foldl (visit_cell lyr g row) st cs)"
  by (induction cs arbitrary: st) (simp_all add: visit_cell_bound)

lemma scan_rows_bound:
  "length (fst st) \<le> snd st \<Longrightarrow>
   length (fst (foldl (scan_row lyr g) st rs)) \<le> snd (foldl (scan_row lyr g) st rs)"
  by (induction rs arbitrary: st) (simp_all add: scan_row_def visit_cells_bound)

lemma scan_cells_bound: "length (fst (scan_cells lyr g)) \<le> snd (scan_cells lyr g)"
  by (simp add: scan_cells_def scan_rows_bound)

lemma scan_cells_valid:
  assumes "x \<in> set (fst (scan_cells lyr g))"
  shows "\<exists>v. x = Num v \<and> v < 65530"
  using assms unfolding scan_cells_values by (auto dest: visit_cell_valid)


lemma sampler_Some:
  assumes "extract_raster_values_in_polygon lyr g pa = (out, Some r)"
  shows "values_of r = fst (scan_cells lyr g)" "pixel_count r = length (fst (scan_cells lyr g))"
    "coverage_pct r = coverage_of (length (fst (scan_cells lyr g))) (snd (scan_cells lyr g))"
    "fst (scan_cells lyr g) \<noteq> []"
  using assms
  by (auto simp add: extract_raster_values_in_polygon_def sampler_body_def
        split: if_splits prod.splits sum.splits)

subsection \<open>The example scenario, evaluated\<close>

lemma ex_ps: "pixel_size_x example_grid = 10" "pixel_size_y example_grid = 10"
  by (simp_all add: pixel_size_x_def pixel_size_y_def example_grid_def)

lemma ex_range: "min_col example_grid example_polygon = 0" "max_col example_grid example_polygon = 9"
   "min_row example_grid example_polygon = 0" "max_row example_grid example_polygon = 9"
  by (simp_all add: min_col_def max_col_def min_row_def max_row_def ex_ps py_int_def)
     (simp_all add: example_grid_def example_polygon_def)

lemma upto_0_9: "[0..9::int] = [0,1,2,3,4,5,6,7,8,9]"
  by code_simp

lemma ex_center: "cell_center example_grid r c = (10 * real_of_int c + 5, 95 - 10 * real_of_int r)"
  by (simp add: cell_center_def ex_ps) (simp add: example_grid_def algebra_simps)

lemma ex_cell:
  assumes "0 \<le> r" "r \<le> 9" "0 \<le> c" "c \<le> 9"
  shows "fst (visit_cell example_grid example_polygon r ([], 0) c) =
           (if r = 0 \<and> c = 0 then [] else [Num 5])"
proof -
  have s: "sample example_grid (x, y) = (if x < 10 \<and> 90 < y then Some (Num 65535) else Some (Num 5), True)" for x y
    by (simp add: example_grid_def)
  have k: "contains example_polygon (x, y) = (0 < x \<and> x < 100 \<and> 0 < y \<and> y < 100)" for x y
    by (simp add: example_polygon_def)
  from assms show ?thesis
    by (auto simp add: visit_cell_def Let_def ex_center s k)
qed

lemma ex_values: "fst (scan_cells example_grid example_polygon) = replicate 99 (Num 5)"
proof -
  have "fst (scan_cells example_grid example_polygon) =
      concat (map (\<lambda>r. concat (map (\<lambda>c. if r = 0 \<and> c = 0 then [] else [Num 5]) [0..9])) [0..9::int])"
    unfolding scan_cells_values ex_range
    by (intro arg_cong [where f = concat] map_cong refl) (simp add: ex_cell)
  also have "\<dots> = replicate 99 (Num 5)"
    by (simp add: upto_0_9 numeral_eq_Suc)
  finally show ?thesis .
qed

lemma ex_total: "snd (scan_cells example_grid example_polygon) = 100"
  by (simp add: scan_cells_total ex_range)

lemma ex_scan: "scan_cells example_grid example_polygon = (replicate 99 (Num 5), 100)"
  by (simp add: prod_eq_iff ex_values ex_total)

lemma ex_result:
  "extract_raster_values_in_polygon example_grid example_polygon pa =
     ([], Some \<lparr> values_of = replicate 99 (Num 5), pixel_count = 99, coverage_pct = 99 \<rparr>)"
  by (simp add: extract_raster_values_in_polygon_def sampler_body_def ex_scan ex_ps coverage_of_def)
     (simp add: example_grid_def)

lemma np_mean_replicate: "0 < n \<Longrightarrow> np_mean (replicate n (Num v)) = Num v"
  by (simp add: np_mean_def reduce_with_def mean_of_def map_replicate sum_list_replicate)

text \<open>
  C1. On the example grid, with the bounding box of the grid as polygon, the sampler
  returns a result with 99 values, a coverage of 99 percent and a mean value of 5.
\<close>

theorem example_scenario:
  "\<exists>r. extract_raster_values_in_polygon example_grid example_polygon pa = ([], Some r) \<and>
       pixel_count r = 99 \<and> coverage_pct r = 99 \<and> np_mean (values_of r) = Num 5"
  by (simp add: ex_result np_mean_replicate)



subsection \<open>The index range\<close>

lemma py_int_le_index:
  assumes "x \<le> real_of_int c + 1 / 2" "0 \<le> c"
  shows "py_int x \<le> c"
proof (cases "0 \<le> x")
  case True
  have "\<lfloor>x\<rfloor> \<le> \<lfloor>real_of_int c + 1 / 2\<rfloor>" using assms(1) by (rule floor_mono)
  also have "\<lfloor>real_of_int c + 1 / 2\<rfloor> = c" by linarith
  finally show ?thesis using True by (simp add: py_int_def)
next
  case False
  then have "\<lceil>x\<rceil> \<le> 0" by (simp add: ceiling_le_iff)
  with assms(2) have "\<lceil>x\<rceil> \<le> c" by linarith
  with False show ?thesis by (simp add: py_int_def)
qed

lemma py_int_ge_index:
  assumes "real_of_int c + 1 / 2 \<le> x" "0 \<le> c"
  shows "c \<le> py_int x"
proof -
  have "0 \<le> x" using assms by linarith
  moreover have "c \<le> \<lfloor>x\<rfloor>" using assms(1) by (simp add: le_floor_iff)
  ultimately show ?thesis by (simp add: py_int_def)
qed

text \<open>
  C3. On a grid with cells of positive size, and for a polygon inside its own bounding
  box, every cell of the grid whose centre the polygon contains lies in the clamped index
  range: rows from \<open>min_row\<close> to \<open>max_row\<close>, columns from \<open>min_col\<close> to
  \<open>max_col\<close>.
\<close>

theorem index_range_keeps_inside_cells:
  assumes grid: "0 < width lyr" "0 < height lyr"
      "xMinimum (extent lyr) < xMaximum (extent lyr)"
      "yMinimum (extent lyr) < yMaximum (extent lyr)"
    and bbox: "bbox_encloses g"
    and cell: "0 \<le> row" "row < height lyr" "0 \<le> col" "col < width lyr"
    and inside: "contains g (cell_center lyr row col)"
  shows "min_row lyr g \<le> row \<and> row \<le> max_row lyr g \<and>
         min_col lyr g \<le> col \<and> col \<le> max_col lyr g"
proof -
  let ?dx = "pixel_size_x lyr" and ?dy = "pixel_size_y lyr"
  have dx: "0 < ?dx" using grid by (simp add: pixel_size_x_def)
  have dy: "0 < ?dy" using grid by (simp add: pixel_size_y_def)
  let ?x = "xMinimum (extent lyr) + (real_of_int col + 0.5) * ?dx"
  let ?y = "yMaximum (extent lyr) - (real_of_int row + 0.5) * ?dy"
  have "contains g (?x, ?y)" using inside by (simp add: cell_center_def)
  with bbox have b: "xMinimum (boundingBox g) \<le> ?x" "?x \<le> xMaximum (boundingBox g)"
      "yMinimum (boundingBox g) \<le> ?y" "?y \<le> yMaximum (boundingBox g)"
    unfolding bbox_encloses_def by blast+
  have c1: "(xMinimum (boundingBox g) - xMinimum (extent lyr)) / ?dx \<le> real_of_int col + 1 / 2"
    using b(1) dx by (simp add: divide_le_eq algebra_simps)
  have c2: "real_of_int col + 1 / 2 \<le> (xMaximum (boundingBox g) - xMinimum (extent lyr)) / ?dx"
    using b(2) dx by (simp add: le_divide_eq algebra_simps)
  have r1: "(yMaximum (extent lyr) - yMaximum (boundingBox g)) / ?dy \<le> real_of_int row + 1 / 2"
    using b(4) dy by (simp add: divide_le_eq algebra_simps)
  have r2: "real_of_int row + 1 / 2 \<le> (yMaximum (extent lyr) - yMinimum (boundingBox g)) / ?dy"
    using b(3) dy by (simp add: le_divide_eq algebra_simps)
  have "min_row lyr g \<le> row"
    using py_int_le_index [OF r1 cell(1)] cell(1) by (simp add: min_row_def)
  moreover have "row \<le> max_row lyr g"
    using py_int_ge_index [OF r2 cell(1)] cell(2) by (simp add: max_row_def)
  moreover have "min_col lyr g \<le> col"
    using py_int_le_index [OF c1 cell(3)] cell(3) by (simp add: min_col_def)
  moreover have "col \<le> max_col lyr g"
    using py_int_ge_index [OF c2 cell(3)] cell(4) by (simp add: max_col_def)
  ultimately show ?thesis by simp
qed

lemma example_polygon_enclosed: "bbox_encloses example_polygon"
  by (simp add: bbox_encloses_def example_polygon_def)

theorem index_range_keeps_inside_cells_witness:
  "contains example_polygon (cell_center example_grid 3 4) \<and>
   min_row example_grid example_polygon \<le> 3 \<and> 3 \<le> max_row example_grid example_polygon \<and>
   min_col example_grid example_polygon \<le> 4 \<and> 4 \<le> max_col example_grid example_polygon"
proof -
  have i: "contains example_polygon (cell_center example_grid 3 4)"
    by (simp add: ex_center) (simp add: example_polygon_def)
  have g: "0 < width example_grid" "0 < height example_grid"
    "xMinimum (extent example_grid) < xMaximum (extent example_grid)"
    "yMinimum (extent example_grid) < yMaximum (extent example_grid)"
    "(3::int) < height example_grid" "(4::int) < width example_grid"
    by (simp_all add: example_grid_def)
  show ?thesis
    using index_range_keeps_inside_cells [OF g(1-4) example_polygon_enclosed _ g(5) _ g(6) i] i
    by simp
qed

subsection \<open>Which values are kept\<close>



text \<open>
  C5. When no value was kept, because no cell was examined or because no examined cell
  gave a valid value, the sampler returns \<open>None\<close>; the caller then prints the
  warning for the feature, after what the sampler printed, and appends no row.
\<close>

theorem no_values_means_skipped:
  assumes "snd (scan_cells lyr g) = 0 \<or> fst (scan_cells lyr g) = []"
    and "feature_geometry transform f = Inr g"
  shows "snd (extract_raster_values_in_polygon lyr g pa) = None \<and>
         process_feature transform lyr sl pa f =
           (fst (extract_raster_values_in_polygon lyr g pa) @ [WarningNoData (fid f)], None) \<and>
         snd (process_patches transform lyr sl pa n i [f] st) = snd st"
proof -
  have e: "fst (scan_cells lyr g) = []"
    using assms(1) scan_cells_bound [of lyr g] by auto
  have n: "snd (extract_raster_values_in_polygon lyr g pa) = None"
    using e by (cases "scan_cells lyr g")
      (simp add: extract_raster_values_in_polygon_def sampler_body_def)
  have p: "process_feature transform lyr sl pa f =
      (fst (extract_raster_values_in_polygon lyr g pa) @ [WarningNoData (fid f)], None)"
    using n by (cases "extract_raster_values_in_polygon lyr g pa")
      (simp add: process_feature_def assms(2))
  show ?thesis by (simp add: n p)
qed

lemma outside_total: "snd (scan_cells example_grid outside_polygon) = 0"
proof -
  have "min_col example_grid outside_polygon = 20" "max_col example_grid outside_polygon = 9"
    by (simp_all add: min_col_def max_col_def ex_ps py_int_def)
       (simp_all add: example_grid_def outside_polygon_def)
  then show ?thesis by (simp add: scan_cells_total)
qed

lemma nodata_cell: "fst (visit_cell nodata_grid g r ([], 0) c) = []"
  by (simp add: visit_cell_def Let_def nodata_grid_def)

lemma nodata_values: "fst (scan_cells nodata_grid example_polygon) = []"
  by (simp add: scan_cells_values nodata_cell)

theorem no_values_means_skipped_witness:
  "process_feature None example_grid None 0 example_feature = ([WarningNoData 7], None) \<and>
   process_feature None nodata_grid None 0 (example_feature \<lparr> fgeometry := example_polygon \<rparr>)
     = ([WarningNoData 7], None)"
proof -
  have g: "feature_geometry None example_feature = Inr outside_polygon"
    "feature_geometry None (example_feature \<lparr> fgeometry := example_polygon \<rparr>) = Inr example_polygon"
    by (simp_all add: feature_geometry_def example_feature_def)
  have w: "width example_grid = 10" "height example_grid = 10"
    "width nodata_grid = 10" "height nodata_grid = 10"
    by (simp_all add: nodata_grid_def example_grid_def)
  have "fst (scan_cells example_grid outside_polygon) = []"
    using outside_total scan_cells_bound [of example_grid outside_polygon] by simp
  then have o: "extract_raster_values_in_polygon example_grid outside_polygon 0 = ([], None)"
    by (cases "scan_cells example_grid outside_polygon")
       (simp add: extract_raster_values_in_polygon_def sampler_body_def ex_ps w)
  have x: "pixel_size_x nodata_grid = 10" "pixel_size_y nodata_grid = 10"
    by (simp_all add: pixel_size_x_def pixel_size_y_def nodata_grid_def example_grid_def)
  have d: "extract_raster_values_in_polygon nodata_grid example_polygon 0 = ([], None)"
    using nodata_values
    by (cases "scan_cells nodata_grid example_polygon")
       (simp add: extract_raster_values_in_polygon_def sampler_body_def x w)
  have f: "fid example_feature = 7" by (simp add: example_feature_def)
  show ?thesis
    using no_values_means_skipped [OF disjI1 [OF outside_total] g(1), of 0 None 0 0 "([], [])"]
      no_values_means_skipped [OF disjI2 [OF nodata_values] g(2), of 0 None 0 0 "([], [])"]
    by (simp add: o d f)
qed

text \<open>
  C10. A result the sampler returns has as many values as its pixel count says, at least
  one; every value is a number below 65530, not NaN; and the coverage is above 0 and at
  most 100.
\<close>

theorem result_invariant:
  assumes "extract_raster_values_in_polygon lyr g pa = (out, Some r)"
  shows "pixel_count r = length (values_of r) \<and> 1 \<le> pixel_count r \<and>
         (\<forall>x \<in> set (values_of r). \<not> np_isnan x \<and> float_lt x (Num 65530)) \<and>
         0 < coverage_pct r \<and> coverage_pct r \<le> 100"
proof -
  let ?n = "length (fst (scan_cells lyr g))" and ?t = "snd (scan_cells lyr g)"
  have n: "0 < ?n" using sampler_Some(4) [OF assms] by simp
  have le: "?n \<le> ?t" by (rule scan_cells_bound)
  have v: "\<not> np_isnan x \<and> float_lt x (Num 65530)" if "x \<in> set (fst (scan_cells lyr g))" for x
    using scan_cells_valid [OF that] by auto
  define q where "q = real ?n / real ?t"
  have t: "0 < ?t" using n le by linarith
  have c: "coverage_pct r = q * 100"
    using t by (simp add: sampler_Some(3) [OF assms] coverage_of_def q_def)
  have "0 < q" unfolding q_def using n t by (simp only: divide_pos_pos of_nat_0_less_iff)
  then have c0: "0 < coverage_pct r" by (simp add: c)
  have "q \<le> 1" unfolding q_def using t le by (simp add: divide_le_eq_1)
  then have c1: "coverage_pct r \<le> 100" by (simp add: c)
  show ?thesis
    using n v c0 c1 by (simp add: sampler_Some(1,2) [OF assms] Suc_le_eq)
qed

theorem result_invariant_witness:
  "\<exists>r. extract_raster_values_in_polygon example_grid example_polygon 0 = ([], Some r) \<and>
     pixel_count r = length (values_of r) \<and> 1 \<le> pixel_count r \<and>
     0 < coverage_pct r \<and> coverage_pct r \<le> 100"
  using result_invariant [OF ex_result [of 0]] ex_result [of 0] by blast

section \<open>Properties of the shape metrics\<close>

text \<open>
  C9. A feature whose area is below 0.1 hectares gives no row and no message: the loop
  over the features leaves the written rows as they were.
\<close>

theorem below_tenth_hectare_no_row:
  assumes "area geom / 10000 < 0.1" and "sgeometry f = Some geom"
  shows "calculate_feature_metrics (sfid f) geom = ([], None) \<and> write_metrics [f] st = st"
  using assms by (simp add: calculate_feature_metrics_def)

theorem below_tenth_hectare_no_row_witness:
  "gtype small_field = PolygonGeometry \<and> area small_field = 900 \<and>
   calculate_feature_metrics 3 small_field = ([], None) \<and>
   write_metrics [\<lparr> sfid = 3, sgeometry = Some small_field \<rparr>] ([], []) = ([], [])"
proof -
  have a: "area small_field / 10000 < 0.1"
    by (simp add: small_field_def)
  show ?thesis
    using below_tenth_hectare_no_row [OF a, of "\<lparr> sfid = 3, sgeometry = Some small_field \<rparr>" "([], [])"]
    by (simp add: small_field_def square_field_def)
qed

lemma metrics_row_fdi:
  assumes "calculate_feature_metrics i geom = (out, Some row)"
  shows "\<exists>fdi. fractal_dimension_index (area geom) (perimeter geom) = Inr fdi \<and>
           m_fractal_dimension_index row = py_round fdi 4"
    and "1000 \<le> area geom" and "perimeter geom \<noteq> 0"
  using assms
  by (auto simp add: calculate_feature_metrics_def Let_def
        split: if_splits sum.splits prod.splits)

text \<open>
  C6. When a row is produced, its fractal dimension column is the index, rounded to four
  digits; the index is \<open>2 * ln (perimeter / 4) / ln area\<close> when the area is above 1
  and the perimeter above 0, and it is 0 when the area is at most 1 or the perimeter at
  most 0.
\<close>

theorem fractal_dimension_of_row:
  assumes "calculate_feature_metrics i geom = (out, Some row)"
  shows "\<exists>fdi. fractal_dimension_index (area geom) (perimeter geom) = Inr fdi \<and>
           m_fractal_dimension_index row = py_round fdi 4 \<and>
           (1 < area geom \<and> 0 < perimeter geom \<longrightarrow>
              fdi = 2 * ln (perimeter geom / 4) / ln (area geom)) \<and>
           (area geom \<le> 1 \<or> perimeter geom \<le> 0 \<longrightarrow> fdi = 0)"
proof -
  from metrics_row_fdi [OF assms] obtain fdi where
    f: "fractal_dimension_index (area geom) (perimeter geom) = Inr fdi"
       "m_fractal_dimension_index row = py_round fdi 4"
    and a: "1000 \<le> area geom"
    by blast
  have "ln (area geom) \<noteq> 0" using a by simp
  with f(1) a have
    "0 < perimeter geom \<longrightarrow> fdi = 2 * ln (perimeter geom / 4) / ln (area geom)"
    "perimeter geom \<le> 0 \<longrightarrow> fdi = 0"
    by (auto simp add: fractal_dimension_index_def split: if_splits)
  with f a show ?thesis by auto
qed

lemma square_field_row:
  "\<exists>out row. calculate_feature_metrics 1 square_field = (out, Some row)"
  by (simp add: calculate_feature_metrics_def Let_def fractal_dimension_index_def
        square_field_def split: prod.splits)

theorem fractal_dimension_of_row_witness:
  "\<exists>out row. calculate_feature_metrics 1 square_field = (out, Some row) \<and>
     m_fractal_dimension_index row = py_round (2 * ln (400 / 4) / ln 10000) 4"
proof -
  from square_field_row obtain out row where
    r: "calculate_feature_metrics 1 square_field = (out, Some row)" by blast
  have a: "area square_field = 10000" "perimeter square_field = 400"
    by (simp_all add: square_field_def)
  from fractal_dimension_of_row [OF r] have
    "m_fractal_dimension_index row = py_round (2 * ln (400 / 4) / ln 10000) 4"
    unfolding a by auto
  with r show ?thesis by blast
qed

subsection \<open>Elongation and orientation\<close>



















section \<open>The two paths of the raster extraction\<close>

lemma one_cell_fields:
  "width (one_cell v n) = 1" "height (one_cell v n) = 1"
  "sample (one_cell v n) p = (Some v, True)" "sourceNoDataValue (one_cell v n) = n"
  "block (one_cell v n) r c = v"
  "extent (one_cell v n) = \<lparr> xMinimum = 0, xMaximum = 10, yMinimum = 0, yMaximum = 10 \<rparr>"
  by (simp_all add: one_cell_def)

text \<open>
  C8. On three layers of one cell, where the harvest layer holds 1 and the biomass layer
  is masked, the per-pixel path writes a row with the value NaN and the bulk-array path
  writes none.
\<close>

theorem paths_differ_on_masked_cell:
  "extract_raster_values_to_csv (Some agb_cell) (Some harvest_cell) (Some prob_cell) =
     Exported [Header, Data 5 5 NaN (Num 0.5)] \<and>
   extract_raster_values_to_csv_numpy True (Some agb_cell) (Some harvest_cell) (Some prob_cell) =
     Exported [Header]"
proof -
  have w: "world_xy harvest_cell 0 0 = (5, 5)"
    by (simp add: world_xy_def cell_size_x_def cell_size_y_def harvest_cell_def one_cell_fields)
  have d: "width harvest_cell = 1" "height harvest_cell = 1"
    by (simp_all add: harvest_cell_def one_cell_fields)
  have s: "sample_pixel agb_cell harvest_cell prob_cell 0 [Header] 0 =
      [Header, Data 5 5 NaN (Num 0.5)]"
    by (simp add: sample_pixel_def w Let_def)
       (simp add: float_ne_def harvest_cell_def agb_cell_def prob_cell_def one_cell_fields)
  have p: "extract_raster_values_to_csv (Some agb_cell) (Some harvest_cell) (Some prob_cell) =
     Exported [Header, Data 5 5 NaN (Num 0.5)]"
    by (simp add: extract_raster_values_to_csv_def d s)
  have n: "np_where_harvest harvest_cell = [(0, 0)]"
    by (simp add: np_where_harvest_def d) (simp add: harvest_cell_def one_cell_fields)
  have m: "extract_raster_values_to_csv_numpy True (Some agb_cell) (Some harvest_cell) (Some prob_cell) =
     Exported [Header]"
    by (simp add: extract_raster_values_to_csv_numpy_def n d array_at_def
          agb_cell_def prob_cell_def one_cell_fields)
  show ?thesis using p m by simp
qed

end
